theory Spec2Isabelle
  imports Main
begin

section \<open>JavaScript values and completions\<close>

text \<open>
  A number is a double. The integers of magnitude below \<open>2^53\<close> are the ones a double holds
  exactly and \<^verbatim>\<open>String\<close> prints with all their decimal digits: they are a type of their
  own, so that no integer outside this range is a number of the model.
\<close>

typedef safe_integer = "{i :: int. - 9007199254740992 < i \<and> i < 9007199254740992}"
  morphisms int_of_safe_integer safe_integer_of_int
  by (rule exI [of _ 0]) simp

text \<open>
  Every other double (a fraction such as \<open>1.5\<close>, a magnitude from \<open>2^53\<close> on such as
  \<open>1e+21\<close>, an infinity from an overflowing literal) is given by its canonical form, the
  string \<^verbatim>\<open>Number.prototype.toString\<close> returns for it. How that string is computed from
  the bits of the double is floating-point arithmetic and is not part of the model.
\<close>

datatype jsnumber = SafeInteger safe_integer | OtherNumber string

text \<open>
  The values a decoded token payload can hold are the JSON values, plus \<open>undefined\<close> for a
  property that is not there. Objects are association lists of their own properties, the
  first binding of a key being the property.
\<close>

datatype jsval =
    JUndefined
  | JNull
  | JBool bool
  | JNum jsnumber
  | JStr string
  | JArr "jsval list"
  | JObj "(string \<times> jsval) list"

text \<open>
  What a JavaScript expression can throw here: the three error classes of the
  jsonwebtoken library, the language's own TypeError, and anything else by name.
\<close>

datatype exn =
    TypeError
  | JsonWebTokenError string
  | TokenExpiredError
  | NotBeforeError
  | OtherError string

text \<open>An evaluation either throws (\<open>Inl\<close>) or returns a value (\<open>Inr\<close>).\<close>

type_synonym 'a completion = "exn + 'a"

definition js_bind :: "'a completion \<Rightarrow> ('a \<Rightarrow> 'b completion) \<Rightarrow> 'b completion" where
  "js_bind m f = (case m of Inl e \<Rightarrow> Inl e | Inr v \<Rightarrow> f v)"

text \<open>\<^verbatim>\<open>try { body } catch { handler }\<close>: the catch clause binds no variable.\<close>

definition try_catch :: "'a completion \<Rightarrow> 'a completion \<Rightarrow> 'a completion" where
  "try_catch body handler = (case body of Inl e \<Rightarrow> handler | Inr v \<Rightarrow> Inr v)"

subsection \<open>Property reads\<close>

fun own_prop :: "jsval \<Rightarrow> string \<Rightarrow> jsval option" where
  "own_prop (JObj kvs) k = map_of kvs k"
| "own_prop v k = None"

text \<open>
  \<^verbatim>\<open>decoded.userId\<close>, \<^verbatim>\<open>decoded.role\<close>: reading a property of \<open>undefined\<close> or \<open>null\<close>
  throws a TypeError; on any other value a property that is not there reads as
  \<open>undefined\<close>. The keys read by the program (\<open>userId\<close>, \<open>role\<close>) are on no prototype, so
  only own properties count.
\<close>

fun js_get :: "jsval \<Rightarrow> string \<Rightarrow> jsval completion" where
  "js_get JUndefined k = Inl TypeError"
| "js_get JNull k = Inl TypeError"
| "js_get v k = Inr (case own_prop v k of None \<Rightarrow> JUndefined | Some x \<Rightarrow> x)"

subsection \<open>\<^verbatim>\<open>String(v)\<close>\<close>

definition digit_char :: "nat \<Rightarrow> char" where
  "digit_char d = ''0123456789'' ! d"

fun dec_nat :: "nat \<Rightarrow> string" where
  "dec_nat n = (if n < 10 then [digit_char n] else dec_nat (n div 10) @ [digit_char (n mod 10)])"

declare dec_nat.simps [simp del]

definition decimal :: "int \<Rightarrow> string" where
  "decimal i = (if i < 0 then CHR ''-'' # dec_nat (nat (- i)) else dec_nat (nat i))"

fun Number_toString :: "jsnumber \<Rightarrow> string" where
  "Number_toString (SafeInteger i) = decimal (int_of_safe_integer i)"
| "Number_toString (OtherNumber canonical) = canonical"

text \<open>\<^verbatim>\<open>Array.prototype.join\<close> with the separator \<open>,\<close>; the first element that throws ends it.\<close>

fun join_comma :: "string completion list \<Rightarrow> string completion" where
  "join_comma [] = Inr []"
| "join_comma [x] = x"
| "join_comma (x # y # ys) =
     (case x of Inl e \<Rightarrow> Inl e
      | Inr s \<Rightarrow> (case join_comma (y # ys) of Inl e \<Rightarrow> Inl e | Inr t \<Rightarrow> Inr (s @ '','' @ t)))"

text \<open>
  \<^verbatim>\<open>String(v)\<close> is ToString: the primitives have fixed renderings; an array is joined
  (\<open>undefined\<close> and \<open>null\<close> elements render empty); an object goes through
  OrdinaryToPrimitive, which calls \<open>toString\<close> when it is callable. A parsed JSON object
  with an own property \<open>toString\<close> shadows \<open>Object.prototype.toString\<close> with a value that
  is not callable, \<open>valueOf\<close> gives back the object, and the conversion throws a TypeError.
\<close>

fun js_String :: "jsval \<Rightarrow> string completion" where
  "js_String JUndefined = Inr ''undefined''"
| "js_String JNull = Inr ''null''"
| "js_String (JBool b) = Inr (if b then ''true'' else ''false'')"
| "js_String (JNum n) = Inr (Number_toString n)"
| "js_String (JStr s) = Inr s"
| "js_String (JArr xs) =
     join_comma (map (\<lambda>x. if x = JUndefined \<or> x = JNull then Inr [] else js_String x) xs)"
| "js_String (JObj kvs) =
     (if map_of kvs ''toString'' = None then Inr ''[object Object]'' else Inl TypeError)"

subsection \<open>String methods\<close>

definition startsWith :: "string \<Rightarrow> string \<Rightarrow> bool" where
  "startsWith s p = (take (length p) s = p)"

definition slice :: "string \<Rightarrow> nat \<Rightarrow> string" where
  "slice s n = drop n s"

text \<open>
  A header value reaches the program as a string of one-byte characters; among them,
  the white space \<^verbatim>\<open>trim\<close> removes is TAB, LF, VT, FF, CR, SP and NBSP.
\<close>

definition is_js_whitespace :: "char \<Rightarrow> bool" where
  "is_js_whitespace c = ((of_char c :: nat) \<in> {9, 10, 11, 12, 13, 32, 160})"

definition trim :: "string \<Rightarrow> string" where
  "trim s = rev (dropWhile is_js_whitespace (rev (dropWhile is_js_whitespace s)))"

section \<open>The request, the response and the middleware of server.js\<close>

text \<open>\<^verbatim>\<open>req.user = { userId: ..., role: ... }\<close>\<close>

record identity =
  userId :: string
  role :: jsval

text \<open>
  The request as the middleware sees it: the \<open>authorization\<close> header (absent or a string)
  and the \<open>user\<close> property (absent until jwtAuth sets it). The rest of the Express request
  is the record's extension.
\<close>

record request =
  authorization :: "string option"
  user :: "identity option"




text \<open>\<^verbatim>\<open>res.status(n).json(body)\<close>\<close>

record response =
  status :: nat
  body :: jsval

text \<open>A middleware either ends the request with a response or calls \<^verbatim>\<open>next()\<close>.\<close>

datatype 'a outcome = Respond response | Next "'a request_scheme"

text \<open>\<^verbatim>\<open>const JWT_SECRET = process.env.JWT_SECRET || 'your-secret-key-change-this';\<close>\<close>

definition JWT_SECRET :: "(string \<rightharpoonup> string) \<Rightarrow> string" where
  "JWT_SECRET env =
     (case env ''JWT_SECRET'' of
        None \<Rightarrow> ''your-secret-key-change-this''
      | Some s \<Rightarrow> if s = [] then ''your-secret-key-change-this'' else s)"

definition unauthenticated_missing :: response where
  "unauthenticated_missing =
     \<lparr>status = 401,
      body = JObj [(''error'', JStr ''TidakTerautentikasi''),
                   (''message'', JStr ''Token Bearer tidak ditemukan. Tambahkan Authorization: Bearer <token>.'')]\<rparr>"

definition unauthenticated_invalid :: response where
  "unauthenticated_invalid =
     \<lparr>status = 401,
      body = JObj [(''error'', JStr ''TidakTerautentikasi''),
                   (''message'', JStr ''Token tidak valid atau sudah kedaluwarsa.'')]\<rparr>"

definition forbidden :: response where
  "forbidden =
     \<lparr>status = 403,
      body = JObj [(''error'', JStr ''AksesDitolak''),
                   (''message'', JStr ''Anda tidak memiliki izin untuk mengakses endpoint ini.'')]\<rparr>"

text \<open>
  jwtAuth. \<open>jwt_verify\<close> stands for \<^verbatim>\<open>jwt.verify\<close> of the jsonwebtoken library, which
  returns the decoded payload or throws; \<open>secret\<close> is the module constant JWT_SECRET.
  \<^verbatim>\<open>req.headers["authorization"] || ""\<close> turns an absent header into the empty string.
\<close>

definition jwtAuth ::
  "(string \<Rightarrow> string \<Rightarrow> jsval completion) \<Rightarrow> string \<Rightarrow> 'a request_scheme \<Rightarrow> 'a outcome completion"
where
  "jwtAuth jwt_verify secret req =
     (let header = (case authorization req of None \<Rightarrow> [] | Some h \<Rightarrow> h);
          prefix = ''Bearer ''
      in if \<not> startsWith header prefix then Inr (Respond unauthenticated_missing)
         else
           let token = trim (slice header (length prefix))
           in try_catch
                (js_bind (jwt_verify token secret) (\<lambda>decoded.
                 js_bind (js_get decoded ''userId'') (\<lambda>u.
                 js_bind (js_String u) (\<lambda>s.
                 js_bind (js_get decoded ''role'') (\<lambda>r.
                 Inr (Next (req\<lparr>user := Some \<lparr>userId = s, role = r\<rparr>\<rparr>)))))))
                (Inr (Respond unauthenticated_invalid)))"

text \<open>
  requireRole. The roles are the string literals of the route declarations;
  \<^verbatim>\<open>includes\<close> compares with SameValueZero, so only a string role equal to one of them is
  found.
\<close>

definition requireRole :: "string list \<Rightarrow> 'a request_scheme \<Rightarrow> 'a outcome completion" where
  "requireRole allowedRoles req =
     (case user req of
        None \<Rightarrow> Inr (Respond forbidden)
      | Some u \<Rightarrow>
          if role u \<notin> JStr ` set allowedRoles then Inr (Respond forbidden)
          else Inr (Next req))"

section \<open>The protected routes\<close>

text \<open>
  Every route of server.js is declared as
  \<^verbatim>\<open>app.METHOD(path, jwtAuth, requireRole(...), handler)\<close>: Express runs the three
  functions in this order, each one only when the one before it called \<^verbatim>\<open>next()\<close>. A
  function that throws synchronously ends the request in Express's error handling.
\<close>

datatype stage = StageJwtAuth | StageRequireRole | StageHandler

datatype 'a final = Responded response | Errored exn | FellThrough "'a request_scheme"

text \<open>
  The run of a stack gives the stages that executed, each with the request it was called
  on, and how the request ended.
\<close>

fun run_stack ::
  "(stage \<times> ('a request_scheme \<Rightarrow> 'a outcome completion)) list \<Rightarrow> 'a request_scheme
     \<Rightarrow> (stage \<times> 'a request_scheme) list \<times> 'a final"
where
  "run_stack [] req = ([], FellThrough req)"
| "run_stack ((s, m) # ms) req =
     (case m req of
        Inl e \<Rightarrow> ([(s, req)], Errored e)
      | Inr (Respond r) \<Rightarrow> ([(s, req)], Responded r)
      | Inr (Next req') \<Rightarrow> (case run_stack ms req' of (tr, fin) \<Rightarrow> ((s, req) # tr, fin)))"

text \<open>
  The handlers (the queries on the book table) are outside this development: a handler is
  any function from the request to the response it sends.
\<close>

definition run_route ::
  "(string \<Rightarrow> string \<Rightarrow> jsval completion) \<Rightarrow> string \<Rightarrow> string list
     \<Rightarrow> ('a request_scheme \<Rightarrow> response) \<Rightarrow> 'a request_scheme
     \<Rightarrow> (stage \<times> 'a request_scheme) list \<times> 'a final"
where
  "run_route jwt_verify secret allowedRoles handler req =
     run_stack
       [(StageJwtAuth, jwtAuth jwt_verify secret),
        (StageRequireRole, requireRole allowedRoles),
        (StageHandler, \<lambda>r. Inr (Respond (handler r)))]
       req"

text \<open>The nine route declarations: method, path and the arguments of requireRole.\<close>

definition routes :: "(string \<times> string \<times> string list) list" where
  "routes =
     [(''GET'', ''/api/books'', [''member'', ''librarian'']),
      (''GET'', ''/api/books/genres/:genres'', [''member'', ''librarian'']),
      (''GET'', ''/api/books/year/:year'', [''member'', ''librarian'']),
      (''GET'', ''/api/books/author/:author'', [''member'', ''librarian'']),
      (''GET'', ''/api/books/:id'', [''member'', ''librarian'']),
      (''POST'', ''/api/books'', [''librarian'']),
      (''PUT'', ''/api/books/:id'', [''librarian'']),
      (''DELETE'', ''/api/books/:id'', [''librarian'']),
      (''GET'', ''/api/stats'', [''member'', ''librarian''])]"

text \<open>
  The process: \<open>JWT_SECRET\<close> is bound once, when the module is loaded, from the environment of
  that moment; every request served afterwards goes through its route with that binding.
  A request is given with the route it matched (the roles and the handler).
\<close>

definition serve ::
  "(string \<rightharpoonup> string) \<Rightarrow> (string \<Rightarrow> string \<Rightarrow> jsval completion)
     \<Rightarrow> (string list \<times> ('a request_scheme \<Rightarrow> response) \<times> 'a request_scheme) list
     \<Rightarrow> ((stage \<times> 'a request_scheme) list \<times> 'a final) list"
where
  "serve env jwt_verify reqs =
     (let secret = JWT_SECRET env
      in map (\<lambda>(allowedRoles, handler, req). run_route jwt_verify secret allowedRoles handler req) reqs)"

subsection \<open>Notions used to state the properties\<close>

text \<open>The token jwtAuth hands to the verifier, for a header that has the prefix.\<close>

definition token_of :: "string \<Rightarrow> string" where
  "token_of h = trim (slice h (length ''Bearer ''))"

text \<open>The value of a claim in a payload object: \<open>undefined\<close> when the claim is not there.\<close>

definition claim :: "(string \<times> jsval) list \<Rightarrow> string \<Rightarrow> jsval" where
  "claim claims k = (case map_of claims k of None \<Rightarrow> JUndefined | Some x \<Rightarrow> x)"

text \<open>
  A stand-in for \<^verbatim>\<open>jwt.verify\<close> on which the theorems are exercised: it accepts a few
  token names under the secret \<open>s3cret\<close> and rejects everything else.
\<close>

definition sample_verify :: "string \<Rightarrow> string \<Rightarrow> jsval completion" where
  "sample_verify token secret =
     (if secret \<noteq> ''s3cret'' then Inl (JsonWebTokenError ''invalid signature'')
      else if token = ''tokA'' then
        Inr (JObj [(''userId'', JNum (SafeInteger (safe_integer_of_int 7))),
                   (''role'', JStr ''member'')])
      else if token = ''tokBig'' then
        Inr (JObj [(''userId'', JNum (OtherNumber ''1e+21'')), (''role'', JStr ''member'')])
      else if token = ''tokHalf'' then
        Inr (JObj [(''userId'', JNum (OtherNumber ''1.5'')), (''role'', JStr ''librarian'')])
      else if token = ''tokAdmin'' then Inr (JObj [(''userId'', JStr ''u1''), (''role'', JStr ''admin'')])
      else if token = ''tokNoRole'' then Inr (JObj [(''userId'', JStr ''u2'')])
      else if token = ''tokNoUser'' then Inr (JObj [(''role'', JStr ''librarian'')])
      else if token = ''tokObj'' then
        Inr (JObj [(''userId'', JObj [(''toString'', JNum (SafeInteger (safe_integer_of_int 1)))]),
                   (''role'', JStr ''member'')])
      else if token = ''tokObjAdmin'' then
        Inr (JObj [(''userId'', JObj [(''toString'', JNull)]), (''role'', JStr ''admin'')])
      else if token = ''tokOld'' then Inl TokenExpiredError
      else if token = [] then Inl (JsonWebTokenError ''jwt must be provided'')
      else Inl (JsonWebTokenError ''jwt malformed''))"

text \<open>A stand-in for a route handler.\<close>

definition sample_handler :: "request \<Rightarrow> response" where
  "sample_handler req = \<lparr>status = 200, body = JObj [(''success'', JBool True)]\<rparr>"

section \<open>Basic facts about the middleware\<close>

lemma startsWith_iff: "startsWith s p \<longleftrightarrow> (\<exists>t. s = p @ t)"
  unfolding startsWith_def
  by (metis append_eq_conv_conj append_take_drop_id)

lemma jwtAuth_absent:
  "authorization req = None \<Longrightarrow> jwtAuth v s req = Inr (Respond unauthenticated_missing)"
  by (simp add: jwtAuth_def startsWith_def)

lemma jwtAuth_no_prefix:
  "authorization req = Some h \<Longrightarrow> \<not> startsWith h ''Bearer '' \<Longrightarrow>
   jwtAuth v s req = Inr (Respond unauthenticated_missing)"
  by (simp add: jwtAuth_def)

lemma jwtAuth_bearer:
  "authorization req = Some h \<Longrightarrow> startsWith h ''Bearer '' \<Longrightarrow>
   jwtAuth v s req =
     try_catch
       (js_bind (v (token_of h) s) (\<lambda>decoded.
        js_bind (js_get decoded ''userId'') (\<lambda>u.
        js_bind (js_String u) (\<lambda>sid.
        js_bind (js_get decoded ''role'') (\<lambda>r.
        Inr (Next (req\<lparr>user := Some \<lparr>userId = sid, role = r\<rparr>\<rparr>)))))))
       (Inr (Respond unauthenticated_invalid))"
  by (simp add: jwtAuth_def token_of_def)

lemma jwtAuth_verify_throws:
  "authorization req = Some h \<Longrightarrow> startsWith h ''Bearer '' \<Longrightarrow> v (token_of h) s = Inl e \<Longrightarrow>
   jwtAuth v s req = Inr (Respond unauthenticated_invalid)"
  by (simp add: jwtAuth_bearer js_bind_def try_catch_def)

lemma jwtAuth_success:
  "authorization req = Some h \<Longrightarrow> startsWith h ''Bearer '' \<Longrightarrow> v (token_of h) s = Inr decoded \<Longrightarrow>
   js_get decoded ''userId'' = Inr u \<Longrightarrow> js_String u = Inr sid \<Longrightarrow> js_get decoded ''role'' = Inr r \<Longrightarrow>
   jwtAuth v s req = Inr (Next (req\<lparr>user := Some \<lparr>userId = sid, role = r\<rparr>\<rparr>))"
  by (simp add: jwtAuth_bearer js_bind_def try_catch_def)

lemma jwtAuth_claims_throw:
  "authorization req = Some h \<Longrightarrow> startsWith h ''Bearer '' \<Longrightarrow> v (token_of h) s = Inr decoded \<Longrightarrow>
   js_bind (js_get decoded ''userId'') js_String = Inl e \<Longrightarrow>
   jwtAuth v s req = Inr (Respond unauthenticated_invalid)"
  by (auto simp add: jwtAuth_bearer js_bind_def try_catch_def split: sum.splits)

lemma jwtAuth_cases:
  "jwtAuth v s req = Inr (Respond unauthenticated_missing) \<or>
   jwtAuth v s req = Inr (Respond unauthenticated_invalid) \<or>
   (\<exists>i. jwtAuth v s req = Inr (Next (req\<lparr>user := Some i\<rparr>)))"
  by (auto simp add: jwtAuth_def Let_def js_bind_def try_catch_def split: sum.splits option.splits)

lemma jwtAuth_NextD:
  assumes "jwtAuth v s req = Inr (Next q)"
  shows "\<exists>h decoded u sid r. authorization req = Some h \<and> startsWith h ''Bearer '' \<and>
           v (token_of h) s = Inr decoded \<and> js_get decoded ''userId'' = Inr u \<and>
           js_String u = Inr sid \<and> js_get decoded ''role'' = Inr r \<and>
           q = req\<lparr>user := Some \<lparr>userId = sid, role = r\<rparr>\<rparr>"
proof (cases "authorization req")
  case None
  with assms show ?thesis by (simp add: jwtAuth_absent)
next
  case (Some h)
  show ?thesis
  proof (cases "startsWith h ''Bearer ''")
    case False
    with Some assms show ?thesis by (simp add: jwtAuth_no_prefix)
  next
    case True
    with Some assms show ?thesis
      by (auto simp add: jwtAuth_bearer js_bind_def try_catch_def split: sum.splits)
  qed
qed


lemma status_forbidden: "status forbidden = 403" by (simp add: forbidden_def)
lemma status_missing: "status unauthenticated_missing = 401" by (simp add: unauthenticated_missing_def)
lemma status_invalid: "status unauthenticated_invalid = 401" by (simp add: unauthenticated_invalid_def)

lemma requireRole_cases:
  "requireRole roles q = Inr (Respond forbidden) \<or> requireRole roles q = Inr (Next q)"
  by (simp add: requireRole_def split: option.splits)

lemma run_route_auth_responds:
  "jwtAuth v s req = Inr (Respond r) \<Longrightarrow>
   run_route v s roles handler req = ([(StageJwtAuth, req)], Responded r)"
  by (simp add: run_route_def)

lemma run_route_forbidden:
  "jwtAuth v s req = Inr (Next q) \<Longrightarrow> requireRole roles q = Inr (Respond r) \<Longrightarrow>
   run_route v s roles handler req = ([(StageJwtAuth, req), (StageRequireRole, q)], Responded r)"
  by (simp add: run_route_def)

lemma run_route_handled:
  "jwtAuth v s req = Inr (Next q) \<Longrightarrow> requireRole roles q = Inr (Next q') \<Longrightarrow>
   run_route v s roles handler req =
     ([(StageJwtAuth, req), (StageRequireRole, q), (StageHandler, q')], Responded (handler q'))"
  by (simp add: run_route_def)

lemma jwtAuth_claims:
  assumes "authorization req = Some h" and "startsWith h ''Bearer ''"
    and "v (token_of h) s = Inr (JObj claims)"
    and "js_String (claim claims ''userId'') = Inr sid"
  shows "jwtAuth v s req =
           Inr (Next (req\<lparr>user := Some \<lparr>userId = sid, role = claim claims ''role''\<rparr>\<rparr>))"
  using assms
  by (intro jwtAuth_success [where decoded = "JObj claims" and u = "claim claims ''userId''"])
     (simp_all add: claim_def)

lemma js_String_primitive:
  "(\<forall>xs. u \<noteq> JArr xs) \<Longrightarrow> (\<forall>kvs. u \<noteq> JObj kvs) \<Longrightarrow> \<exists>sid. js_String u = Inr sid"
  by (cases u) simp_all

lemma int_of_safe_integer_literal:
  "- 9007199254740992 < i \<Longrightarrow> i < 9007199254740992 \<Longrightarrow>
   int_of_safe_integer (safe_integer_of_int i) = i"
  by (simp add: safe_integer_of_int_inverse)

lemma js_String_safe_integer:
  "- 9007199254740992 < i \<Longrightarrow> i < 9007199254740992 \<Longrightarrow>
   js_String (JNum (SafeInteger (safe_integer_of_int i))) = Inr (decimal i)"
  by (simp add: int_of_safe_integer_literal)

lemma decimal_7: "decimal 7 = ''7''"
  by (simp add: decimal_def dec_nat.simps digit_char_def)

lemma js_String_number: "\<exists>t. js_String (JNum n) = Inr t"
  by simp

lemmas sample_eval =
  jwtAuth_def startsWith_def slice_def trim_def is_js_whitespace_def token_of_def
  sample_verify_def js_bind_def try_catch_def claim_def

lemma run_route_cases:
  "(jwtAuth v s req = Inr (Respond unauthenticated_missing) \<and>
      run_route v s roles handler req = ([(StageJwtAuth, req)], Responded unauthenticated_missing))
   \<or> (jwtAuth v s req = Inr (Respond unauthenticated_invalid) \<and>
      run_route v s roles handler req = ([(StageJwtAuth, req)], Responded unauthenticated_invalid))
   \<or> (\<exists>i. jwtAuth v s req = Inr (Next (req\<lparr>user := Some i\<rparr>)) \<and>
          requireRole roles (req\<lparr>user := Some i\<rparr>) = Inr (Respond forbidden) \<and>
          run_route v s roles handler req =
            ([(StageJwtAuth, req), (StageRequireRole, req\<lparr>user := Some i\<rparr>)], Responded forbidden))
   \<or> (\<exists>i. jwtAuth v s req = Inr (Next (req\<lparr>user := Some i\<rparr>)) \<and>
          requireRole roles (req\<lparr>user := Some i\<rparr>) = Inr (Next (req\<lparr>user := Some i\<rparr>)) \<and>
          run_route v s roles handler req =
            ([(StageJwtAuth, req), (StageRequireRole, req\<lparr>user := Some i\<rparr>),
              (StageHandler, req\<lparr>user := Some i\<rparr>)],
             Responded (handler (req\<lparr>user := Some i\<rparr>))))"
proof -
  consider (missing) "jwtAuth v s req = Inr (Respond unauthenticated_missing)"
    | (invalid) "jwtAuth v s req = Inr (Respond unauthenticated_invalid)"
    | (passed) i where "jwtAuth v s req = Inr (Next (req\<lparr>user := Some i\<rparr>))"
    using jwtAuth_cases [of v s req] by blast
  then show ?thesis
  proof cases
    case missing
    then show ?thesis by (simp add: run_route_auth_responds)
  next
    case invalid
    then show ?thesis by (simp add: run_route_auth_responds)
  next
    case passed
    from requireRole_cases [of roles "req\<lparr>user := Some i\<rparr>"] passed show ?thesis
      by (auto simp add: run_route_forbidden run_route_handled)
  qed
qed

lemma routes_roles:
  "(m, p, roles) \<in> set routes \<Longrightarrow> set roles \<subseteq> {''member'', ''librarian''}"
  by (auto simp add: routes_def)

lemma requireRole_NextD:
  "requireRole roles q = Inr (Next q') \<Longrightarrow> \<exists>i. user q = Some i \<and> role i \<in> JStr ` set roles"
  by (auto simp add: requireRole_def split: option.splits if_splits)

lemma requireRole_outside:
  "user q = Some i \<Longrightarrow> role i \<notin> JStr ` set roles \<Longrightarrow> requireRole roles q = Inr (Respond forbidden)"
  by (simp add: requireRole_def)






section \<open>The order of the stages\<close>

text \<open>
  Claim C1. On every protected route, when jwtAuth does not call \<^verbatim>\<open>next()\<close> the request
  ends with jwtAuth's response, whose status is 401, and jwtAuth is the only stage that
  ran: neither requireRole nor the handler executes. Whenever requireRole runs, it runs on
  the request jwtAuth passed on, which is the incoming request with an identity attached;
  whenever the handler runs, both jwtAuth and requireRole have passed that request on. The
  stages always run in the order jwtAuth, requireRole, handler.
\<close>

theorem C1_authentication_gates_the_route:
  "((\<forall>q. jwtAuth v s req \<noteq> Inr (Next q)) \<longrightarrow>
      (\<exists>r. run_route v s roles handler req = ([(StageJwtAuth, req)], Responded r) \<and> status r = 401))
   \<and> (\<forall>q. (StageRequireRole, q) \<in> set (fst (run_route v s roles handler req)) \<longrightarrow>
         (\<exists>i. jwtAuth v s req = Inr (Next q) \<and> q = req\<lparr>user := Some i\<rparr>))
   \<and> (\<forall>q. (StageHandler, q) \<in> set (fst (run_route v s roles handler req)) \<longrightarrow>
         jwtAuth v s req = Inr (Next q) \<and> requireRole roles q = Inr (Next q))
   \<and> map fst (fst (run_route v s roles handler req)) \<in>
        {[StageJwtAuth], [StageJwtAuth, StageRequireRole],
         [StageJwtAuth, StageRequireRole, StageHandler]}"
proof -
  consider (missing) "jwtAuth v s req = Inr (Respond unauthenticated_missing)"
    | (invalid) "jwtAuth v s req = Inr (Respond unauthenticated_invalid)"
    | (passed) i where "jwtAuth v s req = Inr (Next (req\<lparr>user := Some i\<rparr>))"
    using jwtAuth_cases [of v s req] by blast
  then show ?thesis
  proof cases
    case missing
    then show ?thesis
      by (simp add: run_route_auth_responds status_missing)
  next
    case invalid
    then show ?thesis
      by (simp add: run_route_auth_responds status_invalid)
  next
    case passed
    let ?q = "req\<lparr>user := Some i\<rparr>"
    from requireRole_cases [of roles ?q] show ?thesis
    proof
      assume "requireRole roles ?q = Inr (Respond forbidden)"
      with passed show ?thesis
        by (auto simp add: run_route_forbidden)
    next
      assume "requireRole roles ?q = Inr (Next ?q)"
      with passed show ?thesis
        by (auto simp add: run_route_handled)
    qed
  qed
qed

theorem C1_witness:
  "run_route sample_verify ''s3cret'' [''member'', ''librarian''] sample_handler
     \<lparr>authorization = Some ''Bearer tokOld'', user = None\<rparr>
   = ([(StageJwtAuth, \<lparr>authorization = Some ''Bearer tokOld'', user = None\<rparr>)],
      Responded unauthenticated_invalid)
   \<and> status unauthenticated_invalid = 401"
proof -
  let ?req = "\<lparr>authorization = Some ''Bearer tokOld'', user = None\<rparr>"
  have fails: "jwtAuth sample_verify ''s3cret'' ?req = Inr (Respond unauthenticated_invalid)"
    by (simp add: jwtAuth_def startsWith_def slice_def trim_def is_js_whitespace_def
        sample_verify_def js_bind_def try_catch_def)
  then have "\<forall>q. jwtAuth sample_verify ''s3cret'' ?req \<noteq> Inr (Next q)"
    by simp
  with C1_authentication_gates_the_route
         [of sample_verify "''s3cret''" ?req "[''member'', ''librarian'']" sample_handler]
  obtain r where
    "run_route sample_verify ''s3cret'' [''member'', ''librarian''] sample_handler ?req
       = ([(StageJwtAuth, ?req)], Responded r)"
    by blast
  moreover from this fails have "r = unauthenticated_invalid"
    by (simp add: run_route_def)
  ultimately show ?thesis
    by (simp add: status_invalid)
qed

section \<open>The policy check\<close>

text \<open>
  Claim C2. For every request and every list of allowed roles, requireRole calls
  \<^verbatim>\<open>next()\<close> (leaving the request as it is) exactly when an identity is attached and
  its role is one of the allowed roles; in every other case, an absent identity included,
  it answers with status 403 and error \<open>AksesDitolak\<close>.
\<close>

theorem C2_requireRole_membership:
  "requireRole roles req =
     (if \<exists>i. user req = Some i \<and> role i \<in> JStr ` set roles then Inr (Next req)
      else Inr (Respond forbidden))
   \<and> status forbidden = 403
   \<and> own_prop (body forbidden) ''error'' = Some (JStr ''AksesDitolak'')"
  by (auto simp add: requireRole_def forbidden_def split: option.splits)

theorem C2_witness:
  "requireRole [''librarian'']
     \<lparr>authorization = None, user = Some \<lparr>userId = ''7'', role = JStr ''member''\<rparr>\<rparr>
     = Inr (Respond forbidden)
   \<and> requireRole [''member'', ''librarian'']
     \<lparr>authorization = None, user = Some \<lparr>userId = ''7'', role = JStr ''member''\<rparr>\<rparr>
     = Inr (Next \<lparr>authorization = None, user = Some \<lparr>userId = ''7'', role = JStr ''member''\<rparr>\<rparr>)
   \<and> requireRole [''member'', ''librarian''] \<lparr>authorization = None, user = None\<rparr>
     = Inr (Respond forbidden)
   \<and> status forbidden = 403
   \<and> own_prop (body forbidden) ''error'' = Some (JStr ''AksesDitolak'')"
  using C2_requireRole_membership
          [of "[''librarian'']"
              "\<lparr>authorization = None, user = Some \<lparr>userId = ''7'', role = JStr ''member''\<rparr>\<rparr>"]
        C2_requireRole_membership
          [of "[''member'', ''librarian'']"
              "\<lparr>authorization = None, user = Some \<lparr>userId = ''7'', role = JStr ''member''\<rparr>\<rparr>"]
        C2_requireRole_membership
          [of "[''member'', ''librarian'']" "\<lparr>authorization = None, user = None\<rparr>"]
  by simp

section \<open>The two unauthenticated outcomes\<close>

text \<open>
  Claim C3. When the authorization header is absent, or does not start with the six
  letters \<open>Bearer\<close> and one space (compared character by character, so case matters),
  jwtAuth returns normally with the response of status 401 and error
  \<open>TidakTerautentikasi\<close> that tells the caller the bearer token is missing; it throws
  nothing, whatever the verifier would do.
\<close>

theorem C3_missing_or_malformed_header:
  assumes "authorization req = None \<or> (\<exists>h. authorization req = Some h \<and> \<not> startsWith h ''Bearer '')"
  shows "jwtAuth v s req = Inr (Respond unauthenticated_missing)
         \<and> status unauthenticated_missing = 401
         \<and> own_prop (body unauthenticated_missing) ''error'' = Some (JStr ''TidakTerautentikasi'')"
  using assms
  by (auto simp add: jwtAuth_absent jwtAuth_no_prefix unauthenticated_missing_def)

theorem C3_witness:
  "jwtAuth sample_verify ''s3cret'' \<lparr>authorization = Some ''Basic abc123'', user = None\<rparr>
     = Inr (Respond unauthenticated_missing)
   \<and> jwtAuth sample_verify ''s3cret'' \<lparr>authorization = Some ''bearer tokA'', user = None\<rparr>
     = Inr (Respond unauthenticated_missing)
   \<and> jwtAuth sample_verify ''s3cret'' \<lparr>authorization = None, user = None\<rparr>
     = Inr (Respond unauthenticated_missing)
   \<and> status unauthenticated_missing = 401
   \<and> own_prop (body unauthenticated_missing) ''error'' = Some (JStr ''TidakTerautentikasi'')"
  using C3_missing_or_malformed_header
          [of "\<lparr>authorization = Some ''Basic abc123'', user = None\<rparr>" sample_verify "''s3cret''"]
        C3_missing_or_malformed_header
          [of "\<lparr>authorization = Some ''bearer tokA'', user = None\<rparr>" sample_verify "''s3cret''"]
        C3_missing_or_malformed_header
          [of "\<lparr>authorization = None, user = None\<rparr>" sample_verify "''s3cret''"]
  by (simp add: startsWith_def)

text \<open>
  Claim C4. For a header with the prefix, whenever the verifier throws, whatever it throws
  (a bad signature, an expired token, a malformed token), and also whenever reading the
  claims of the decoded payload throws, jwtAuth answers with one and the same response:
  status 401, error \<open>TidakTerautentikasi\<close> and the fixed message that the token is invalid
  or expired. The response does not depend on the exception.
\<close>

theorem C4_verification_failures_collapse:
  assumes "authorization req = Some h" and "startsWith h ''Bearer ''"
    and "v (token_of h) s = Inl e
         \<or> (\<exists>decoded. v (token_of h) s = Inr decoded
               \<and> js_bind (js_get decoded ''userId'') js_String = Inl e)"
  shows "jwtAuth v s req = Inr (Respond unauthenticated_invalid)
         \<and> status unauthenticated_invalid = 401
         \<and> body unauthenticated_invalid =
             JObj [(''error'', JStr ''TidakTerautentikasi''),
                   (''message'', JStr ''Token tidak valid atau sudah kedaluwarsa.'')]"
  using assms
  by (auto simp add: jwtAuth_verify_throws jwtAuth_claims_throw unauthenticated_invalid_def)

theorem C4_witness:
  "jwtAuth sample_verify ''wrong-secret'' \<lparr>authorization = Some ''Bearer tokA'', user = None\<rparr>
     = Inr (Respond unauthenticated_invalid)
   \<and> jwtAuth sample_verify ''s3cret'' \<lparr>authorization = Some ''Bearer tokOld'', user = None\<rparr>
     = Inr (Respond unauthenticated_invalid)
   \<and> jwtAuth sample_verify ''s3cret'' \<lparr>authorization = Some ''Bearer not.a.jwt'', user = None\<rparr>
     = Inr (Respond unauthenticated_invalid)
   \<and> sample_verify ''tokA'' ''wrong-secret'' = Inl (JsonWebTokenError ''invalid signature'')
   \<and> sample_verify ''tokOld'' ''s3cret'' = Inl TokenExpiredError
   \<and> sample_verify ''not.a.jwt'' ''s3cret'' = Inl (JsonWebTokenError ''jwt malformed'')"
  using C4_verification_failures_collapse
          [of "\<lparr>authorization = Some ''Bearer tokA'', user = None\<rparr>" "''Bearer tokA''"
              sample_verify "''wrong-secret''" "JsonWebTokenError ''invalid signature''"]
        C4_verification_failures_collapse
          [of "\<lparr>authorization = Some ''Bearer tokOld'', user = None\<rparr>" "''Bearer tokOld''"
              sample_verify "''s3cret''" TokenExpiredError]
        C4_verification_failures_collapse
          [of "\<lparr>authorization = Some ''Bearer not.a.jwt'', user = None\<rparr>" "''Bearer not.a.jwt''"
              sample_verify "''s3cret''" "JsonWebTokenError ''jwt malformed''"]
  by (simp add: startsWith_def token_of_def slice_def trim_def is_js_whitespace_def sample_verify_def)

section \<open>The identity of an accepted token\<close>

text \<open>
  Claim C5, as amended. For every token the verifier accepts, with a payload object whose
  \<open>userId\<close> claim \<^verbatim>\<open>String\<close> converts to a string \<open>sid\<close>, jwtAuth calls \<^verbatim>\<open>next()\<close> with
  the identity whose \<open>userId\<close> is \<open>sid\<close> and whose role is the payload's \<open>role\<close> claim
  (\<open>undefined\<close> when there is none). \<^verbatim>\<open>String\<close> converts every value that is neither an
  array nor an object: an absent claim, \<open>null\<close>, a boolean, a number (an integer or any
  other double), a string. The token with the claims \<open>userId: 7\<close>, \<open>role: "member"\<close>
  yields the \<open>userId\<close> \<open>"7"\<close>.
\<close>

theorem C5_identity_from_claims:
  assumes "authorization req = Some h" and "startsWith h ''Bearer ''"
    and "v (token_of h) s = Inr (JObj claims)"
    and "js_String (claim claims ''userId'') = Inr sid"
  shows "jwtAuth v s req =
           Inr (Next (req\<lparr>user := Some \<lparr>userId = sid, role = claim claims ''role''\<rparr>\<rparr>))
         \<and> (\<forall>u. (\<forall>xs. u \<noteq> JArr xs) \<and> (\<forall>kvs. u \<noteq> JObj kvs) \<longrightarrow> (\<exists>t. js_String u = Inr t))"
  using assms by (simp add: jwtAuth_claims js_String_primitive)

theorem C5_witness:
  "sample_verify ''tokA'' ''s3cret''
     = Inr (JObj [(''userId'', JNum (SafeInteger (safe_integer_of_int 7))),
                  (''role'', JStr ''member'')])
   \<and> jwtAuth sample_verify ''s3cret'' \<lparr>authorization = Some ''Bearer tokA'', user = None\<rparr>
     = Inr (Next \<lparr>authorization = Some ''Bearer tokA'',
                  user = Some \<lparr>userId = ''7'', role = JStr ''member''\<rparr>\<rparr>)
   \<and> sample_verify ''tokBig'' ''s3cret''
     = Inr (JObj [(''userId'', JNum (OtherNumber ''1e+21'')), (''role'', JStr ''member'')])
   \<and> jwtAuth sample_verify ''s3cret'' \<lparr>authorization = Some ''Bearer tokBig'', user = None\<rparr>
     = Inr (Next \<lparr>authorization = Some ''Bearer tokBig'',
                  user = Some \<lparr>userId = ''1e+21'', role = JStr ''member''\<rparr>\<rparr>)
   \<and> sample_verify ''tokHalf'' ''s3cret''
     = Inr (JObj [(''userId'', JNum (OtherNumber ''1.5'')), (''role'', JStr ''librarian'')])
   \<and> jwtAuth sample_verify ''s3cret'' \<lparr>authorization = Some ''Bearer tokHalf'', user = None\<rparr>
     = Inr (Next \<lparr>authorization = Some ''Bearer tokHalf'',
                  user = Some \<lparr>userId = ''1.5'', role = JStr ''librarian''\<rparr>\<rparr>)"
proof -
  let ?claimsA = "[(''userId'', JNum (SafeInteger (safe_integer_of_int 7))),
                   (''role'', JStr ''member'')]"
  let ?claimsB = "[(''userId'', JNum (OtherNumber ''1e+21'')), (''role'', JStr ''member'')]"
  let ?claimsH = "[(''userId'', JNum (OtherNumber ''1.5'')), (''role'', JStr ''librarian'')]"
  have vA: "sample_verify (token_of ''Bearer tokA'') ''s3cret'' = Inr (JObj ?claimsA)"
    by (simp add: token_of_def slice_def trim_def is_js_whitespace_def sample_verify_def)
  have sA: "js_String (claim ?claimsA ''userId'') = Inr ''7''"
    by (simp add: claim_def int_of_safe_integer_literal decimal_7)
  have pA: "startsWith ''Bearer tokA'' ''Bearer ''"
    by (simp add: startsWith_def)
  have vB: "sample_verify (token_of ''Bearer tokBig'') ''s3cret'' = Inr (JObj ?claimsB)"
    by (simp add: token_of_def slice_def trim_def is_js_whitespace_def sample_verify_def)
  have sB: "js_String (claim ?claimsB ''userId'') = Inr ''1e+21''"
    by (simp add: claim_def)
  have pB: "startsWith ''Bearer tokBig'' ''Bearer ''"
    by (simp add: startsWith_def)
  have vH: "sample_verify (token_of ''Bearer tokHalf'') ''s3cret'' = Inr (JObj ?claimsH)"
    by (simp add: token_of_def slice_def trim_def is_js_whitespace_def sample_verify_def)
  have sH: "js_String (claim ?claimsH ''userId'') = Inr ''1.5''"
    by (simp add: claim_def)
  have pH: "startsWith ''Bearer tokHalf'' ''Bearer ''"
    by (simp add: startsWith_def)
  from C5_identity_from_claims
         [of "\<lparr>authorization = Some ''Bearer tokA'', user = None\<rparr>" "''Bearer tokA''"
             sample_verify "''s3cret''", OF _ pA vA sA]
       C5_identity_from_claims
         [of "\<lparr>authorization = Some ''Bearer tokBig'', user = None\<rparr>" "''Bearer tokBig''"
             sample_verify "''s3cret''", OF _ pB vB sB]
       C5_identity_from_claims
         [of "\<lparr>authorization = Some ''Bearer tokHalf'', user = None\<rparr>" "''Bearer tokHalf''"
             sample_verify "''s3cret''", OF _ pH vH sH]
  show ?thesis
    by (simp add: claim_def sample_verify_def)
qed

text \<open>
  The claim without the condition on \<open>userId\<close> fails: a token the verifier accepts whose
  \<open>userId\<close> claim is the object \<open>{"toString": 1}\<close> makes \<^verbatim>\<open>String(decoded.userId)\<close> throw
  inside the \<^verbatim>\<open>try\<close> block, and the request is answered 401 as an invalid token.
\<close>

theorem C5_counterexample:
  "sample_verify ''tokObj'' ''s3cret''
     = Inr (JObj [(''userId'', JObj [(''toString'', JNum (SafeInteger (safe_integer_of_int 1)))]),
                  (''role'', JStr ''member'')])
   \<and> js_String (JObj [(''toString'', JNum (SafeInteger (safe_integer_of_int 1)))]) = Inl TypeError
   \<and> jwtAuth sample_verify ''s3cret'' \<lparr>authorization = Some ''Bearer tokObj'', user = None\<rparr>
     = Inr (Respond unauthenticated_invalid)"
  by (simp add: sample_eval)

section \<open>Determinism and the secret\<close>

text \<open>
  Claim C6. jwtAuth reads nothing of the request but the authorization header and changes
  nothing but \<open>user\<close>: two requests with the same header, verified by the same verifier
  with the same secret, get the same identity, and verifying again the request that
  jwtAuth passed on gives that same request. requireRole leaves the request as it is, and
  whether it passes depends only on the attached identity and on the set of allowed
  roles. (The verifier \<^verbatim>\<open>jwt.verify\<close> is a function of the token and the secret here: both
  verifications read the same clock.)
\<close>

theorem C6_deterministic_and_stateless:
  "(\<forall>q1. authorization req1 = authorization req2 \<and> jwtAuth v s req1 = Inr (Next q1) \<longrightarrow>
       (\<exists>i. q1 = req1\<lparr>user := Some i\<rparr> \<and> jwtAuth v s req2 = Inr (Next (req2\<lparr>user := Some i\<rparr>))))
   \<and> (\<forall>q. jwtAuth v s req1 = Inr (Next q) \<longrightarrow> jwtAuth v s q = Inr (Next q))
   \<and> (user req1 = user req2 \<longrightarrow>
        (requireRole roles req1 = Inr (Next req1) \<and> requireRole roles req2 = Inr (Next req2))
        \<or> (requireRole roles req1 = Inr (Respond forbidden) \<and>
            requireRole roles req2 = Inr (Respond forbidden)))
   \<and> (set roles = set roles' \<longrightarrow> requireRole roles req1 = requireRole roles' req1)"
proof (intro conjI allI impI)
  fix q1
  assume a: "authorization req1 = authorization req2 \<and> jwtAuth v s req1 = Inr (Next q1)"
  then obtain h decoded u sid r where
    h: "authorization req1 = Some h" "startsWith h ''Bearer ''" "v (token_of h) s = Inr decoded"
       "js_get decoded ''userId'' = Inr u" "js_String u = Inr sid" "js_get decoded ''role'' = Inr r"
    and q1: "q1 = req1\<lparr>user := Some \<lparr>userId = sid, role = r\<rparr>\<rparr>"
    using jwtAuth_NextD [of v s req1 q1] by blast
  from a h(1) have "authorization req2 = Some h" by simp
  from jwtAuth_success [where v = v and s = s, OF this h(2-6)]
  have "jwtAuth v s req2 = Inr (Next (req2\<lparr>user := Some \<lparr>userId = sid, role = r\<rparr>\<rparr>))" .
  with q1 show "\<exists>i. q1 = req1\<lparr>user := Some i\<rparr> \<and> jwtAuth v s req2 = Inr (Next (req2\<lparr>user := Some i\<rparr>))"
    by blast
next
  fix q
  assume a: "jwtAuth v s req1 = Inr (Next q)"
  then obtain h decoded u sid r where
    h: "authorization req1 = Some h" "startsWith h ''Bearer ''" "v (token_of h) s = Inr decoded"
       "js_get decoded ''userId'' = Inr u" "js_String u = Inr sid" "js_get decoded ''role'' = Inr r"
    and q: "q = req1\<lparr>user := Some \<lparr>userId = sid, role = r\<rparr>\<rparr>"
    using jwtAuth_NextD [of v s req1 q] by blast
  from q h(1) have "authorization q = Some h" by simp
  from jwtAuth_success [where v = v and s = s, OF this h(2-6)] q show "jwtAuth v s q = Inr (Next q)"
    by simp
next
  assume "user req1 = user req2"
  then show "(requireRole roles req1 = Inr (Next req1) \<and> requireRole roles req2 = Inr (Next req2))
        \<or> (requireRole roles req1 = Inr (Respond forbidden) \<and>
            requireRole roles req2 = Inr (Respond forbidden))"
    by (simp add: requireRole_def split: option.splits)
next
  assume "set roles = set roles'"
  then show "requireRole roles req1 = requireRole roles' req1"
    by (simp add: requireRole_def split: option.splits)
qed

theorem C6_witness:
  "jwtAuth sample_verify ''s3cret'' \<lparr>authorization = Some ''Bearer tokA'', user = None\<rparr>
     = Inr (Next \<lparr>authorization = Some ''Bearer tokA'',
                  user = Some \<lparr>userId = ''7'', role = JStr ''member''\<rparr>\<rparr>)
   \<and> jwtAuth sample_verify ''s3cret''
       \<lparr>authorization = Some ''Bearer tokA'', user = Some \<lparr>userId = ''7'', role = JStr ''member''\<rparr>\<rparr>
     = Inr (Next \<lparr>authorization = Some ''Bearer tokA'',
                  user = Some \<lparr>userId = ''7'', role = JStr ''member''\<rparr>\<rparr>)"
proof -
  let ?req = "\<lparr>authorization = Some ''Bearer tokA'', user = None\<rparr>"
  let ?q = "\<lparr>authorization = Some ''Bearer tokA'',
             user = Some \<lparr>userId = ''7'', role = JStr ''member''\<rparr>\<rparr>"
  have first: "jwtAuth sample_verify ''s3cret'' ?req = Inr (Next ?q)"
    by (simp add: sample_eval int_of_safe_integer_literal decimal_7)
  with C6_deterministic_and_stateless [of ?req ?req sample_verify "''s3cret''" "[]" "[]"]
  have "jwtAuth sample_verify ''s3cret'' ?q = Inr (Next ?q)"
    by blast
  with first show ?thesis
    by simp
qed

text \<open>
  Claim C7. When the environment has no \<open>JWT_SECRET\<close>, the secret is the fixed string
  \<open>your-secret-key-change-this\<close>, and every request the process serves is verified
  against that string.
\<close>

theorem C7_default_secret:
  assumes "env ''JWT_SECRET'' = None"
  shows "JWT_SECRET env = ''your-secret-key-change-this''
         \<and> serve env v reqs =
             map (\<lambda>(roles, handler, req).
                    run_route v ''your-secret-key-change-this'' roles handler req) reqs"
  using assms by (simp add: JWT_SECRET_def serve_def)

theorem C7_witness:
  "JWT_SECRET Map.empty = ''your-secret-key-change-this''
   \<and> serve Map.empty sample_verify
        [([''member'', ''librarian''], sample_handler,
          \<lparr>authorization = Some ''Bearer tokA'', user = None\<rparr>)]
     = [run_route sample_verify ''your-secret-key-change-this'' [''member'', ''librarian'']
          sample_handler \<lparr>authorization = Some ''Bearer tokA'', user = None\<rparr>]"
  using C7_default_secret
          [of Map.empty sample_verify
              "[([''member'', ''librarian''], sample_handler,
                 \<lparr>authorization = Some ''Bearer tokA'', user = None\<rparr>)]"]
  by simp

section \<open>Roles outside the declared ones\<close>

text \<open>
  Claim C8, as amended. jwtAuth does not look at the role: for every token the verifier
  accepts, with a payload object whose \<open>userId\<close> claim \<^verbatim>\<open>String\<close> converts, jwtAuth passes
  the request on with an identity carrying the payload's \<open>role\<close> claim, whatever it is
  (\<open>undefined\<close> when there is none). On each of the nine routes, an identity whose role is
  neither the string \<open>member\<close> nor the string \<open>librarian\<close> is answered 403 by requireRole
  and the handler does not run; a handler only ever runs on a request whose identity has
  one of these two roles.
\<close>

theorem C8_role_is_checked_only_by_requireRole:
  "(\<forall>h claims sid.
       authorization req = Some h \<and> startsWith h ''Bearer '' \<and>
       v (token_of h) s = Inr (JObj claims) \<and> js_String (claim claims ''userId'') = Inr sid \<longrightarrow>
       (\<exists>i. jwtAuth v s req = Inr (Next (req\<lparr>user := Some i\<rparr>)) \<and>
            role i = claim claims ''role''))
   \<and> (\<forall>(m, p, roles) \<in> set routes. \<forall>q i.
         jwtAuth v s req = Inr (Next q) \<and> user q = Some i \<and>
         role i \<notin> {JStr ''member'', JStr ''librarian''} \<longrightarrow>
         run_route v s roles handler req =
           ([(StageJwtAuth, req), (StageRequireRole, q)], Responded forbidden)
         \<and> status forbidden = 403)
   \<and> (\<forall>(m, p, roles) \<in> set routes. \<forall>q.
         (StageHandler, q) \<in> set (fst (run_route v s roles handler req)) \<longrightarrow>
         (\<exists>i. user q = Some i \<and> role i \<in> {JStr ''member'', JStr ''librarian''}))"
proof -
  have a: "\<exists>i. jwtAuth v s req = Inr (Next (req\<lparr>user := Some i\<rparr>)) \<and> role i = claim claims ''role''"
    if "authorization req = Some h" "startsWith h ''Bearer ''"
       "v (token_of h) s = Inr (JObj claims)" "js_String (claim claims ''userId'') = Inr sid"
    for h claims sid
  proof -
    from that have "jwtAuth v s req =
        Inr (Next (req\<lparr>user := Some \<lparr>userId = sid, role = claim claims ''role''\<rparr>\<rparr>))"
      by (rule jwtAuth_claims)
    then show ?thesis
      by (intro exI [of _ "\<lparr>userId = sid, role = claim claims ''role''\<rparr>"]) simp
  qed
  have b: "run_route v s roles handler req =
             ([(StageJwtAuth, req), (StageRequireRole, q)], Responded forbidden)"
    if r: "(m, p, roles) \<in> set routes"
      and n: "jwtAuth v s req = Inr (Next q)" and u: "user q = Some i"
      and out: "role i \<notin> {JStr ''member'', JStr ''librarian''}"
    for m p roles q i
  proof -
    from routes_roles [OF r] out have "role i \<notin> JStr ` set roles"
      by auto
    with u have "requireRole roles q = Inr (Respond forbidden)"
      by (rule requireRole_outside)
    with n show ?thesis
      by (rule run_route_forbidden)
  qed
  have c: "\<exists>i. user q = Some i \<and> role i \<in> {JStr ''member'', JStr ''librarian''}"
    if r: "(m, p, roles) \<in> set routes"
      and t: "(StageHandler, q) \<in> set (fst (run_route v s roles handler req))"
    for m p roles q
  proof -
    from run_route_cases [of v s req roles handler] t
    have "requireRole roles q = Inr (Next q)"
      by auto
    from requireRole_NextD [OF this] obtain i where "user q = Some i" "role i \<in> JStr ` set roles"
      by blast
    with routes_roles [OF r] show ?thesis
      by auto
  qed
  have A: "\<forall>h claims sid.
       authorization req = Some h \<and> startsWith h ''Bearer '' \<and>
       v (token_of h) s = Inr (JObj claims) \<and> js_String (claim claims ''userId'') = Inr sid \<longrightarrow>
       (\<exists>i. jwtAuth v s req = Inr (Next (req\<lparr>user := Some i\<rparr>)) \<and>
            role i = claim claims ''role'')"
    using a by blast
  have B: "\<forall>(m, p, roles) \<in> set routes. \<forall>q i.
         jwtAuth v s req = Inr (Next q) \<and> user q = Some i \<and>
         role i \<notin> {JStr ''member'', JStr ''librarian''} \<longrightarrow>
         run_route v s roles handler req =
           ([(StageJwtAuth, req), (StageRequireRole, q)], Responded forbidden)
         \<and> status forbidden = 403"
    using b status_forbidden by blast
  have C: "\<forall>(m, p, roles) \<in> set routes. \<forall>q.
         (StageHandler, q) \<in> set (fst (run_route v s roles handler req)) \<longrightarrow>
         (\<exists>i. user q = Some i \<and> role i \<in> {JStr ''member'', JStr ''librarian''})"
    using c by blast
  from A B C show ?thesis
    by (intro conjI)
qed

theorem C8_witness:
  "run_route sample_verify ''s3cret'' [''member'', ''librarian''] sample_handler
     \<lparr>authorization = Some ''Bearer tokAdmin'', user = None\<rparr>
   = ([(StageJwtAuth, \<lparr>authorization = Some ''Bearer tokAdmin'', user = None\<rparr>),
       (StageRequireRole, \<lparr>authorization = Some ''Bearer tokAdmin'',
                           user = Some \<lparr>userId = ''u1'', role = JStr ''admin''\<rparr>\<rparr>)],
      Responded forbidden)
   \<and> status forbidden = 403"
proof -
  let ?req = "\<lparr>authorization = Some ''Bearer tokAdmin'', user = None\<rparr>"
  let ?q = "\<lparr>authorization = Some ''Bearer tokAdmin'',
             user = Some \<lparr>userId = ''u1'', role = JStr ''admin''\<rparr>\<rparr>"
  have r: "(''GET'', ''/api/stats'', [''member'', ''librarian'']) \<in> set routes"
    by (simp add: routes_def)
  have p: "startsWith ''Bearer tokAdmin'' ''Bearer ''"
    by (simp add: startsWith_def)
  have t: "sample_verify (token_of ''Bearer tokAdmin'') ''s3cret''
             = Inr (JObj [(''userId'', JStr ''u1''), (''role'', JStr ''admin'')])"
    by (simp add: token_of_def slice_def trim_def is_js_whitespace_def sample_verify_def)
  have u: "js_String (claim [(''userId'', JStr ''u1''), (''role'', JStr ''admin'')] ''userId'') = Inr ''u1''"
    by (simp add: claim_def)
  note inst = C8_role_is_checked_only_by_requireRole [of ?req sample_verify "''s3cret''" sample_handler]
  from inst p t u obtain i where
    i: "jwtAuth sample_verify ''s3cret'' ?req = Inr (Next (?req\<lparr>user := Some i\<rparr>))"
       "role i = claim [(''userId'', JStr ''u1''), (''role'', JStr ''admin'')] ''role''"
    by auto
  then have out: "role i \<notin> {JStr ''member'', JStr ''librarian''}"
    by (simp add: claim_def)
  from inst r have
    "\<forall>q j. jwtAuth sample_verify ''s3cret'' ?req = Inr (Next q) \<and> user q = Some j \<and>
         role j \<notin> {JStr ''member'', JStr ''librarian''} \<longrightarrow>
         run_route sample_verify ''s3cret'' [''member'', ''librarian''] sample_handler ?req =
           ([(StageJwtAuth, ?req), (StageRequireRole, q)], Responded forbidden)
         \<and> status forbidden = 403"
    by blast
  with i(1) out have
    "run_route sample_verify ''s3cret'' [''member'', ''librarian''] sample_handler ?req =
       ([(StageJwtAuth, ?req), (StageRequireRole, ?req\<lparr>user := Some i\<rparr>)], Responded forbidden)
     \<and> status forbidden = 403"
    by simp
  moreover have "jwtAuth sample_verify ''s3cret'' ?req = Inr (Next ?q)"
    by (simp add: sample_eval)
  with i(1) have "?req\<lparr>user := Some i\<rparr> = ?q"
    by simp
  ultimately show ?thesis
    by simp
qed

text \<open>
  The claim without the condition on \<open>userId\<close> fails: an accepted token with the role
  \<open>admin\<close> whose \<open>userId\<close> claim is the object \<open>{"toString": null}\<close> does not pass
  authentication; it is answered 401 and requireRole never sees its role.
\<close>

theorem C8_counterexample:
  "sample_verify ''tokObjAdmin'' ''s3cret''
     = Inr (JObj [(''userId'', JObj [(''toString'', JNull)]), (''role'', JStr ''admin'')])
   \<and> jwtAuth sample_verify ''s3cret'' \<lparr>authorization = Some ''Bearer tokObjAdmin'', user = None\<rparr>
     = Inr (Respond unauthenticated_invalid)
   \<and> run_route sample_verify ''s3cret'' [''member'', ''librarian''] sample_handler
       \<lparr>authorization = Some ''Bearer tokObjAdmin'', user = None\<rparr>
     = ([(StageJwtAuth, \<lparr>authorization = Some ''Bearer tokObjAdmin'', user = None\<rparr>)],
        Responded unauthenticated_invalid)"
  by (simp add: sample_eval run_route_def)

section \<open>Edge cases of the header and the claims\<close>

text \<open>
  Claim C9. For every token the verifier accepts whose payload object has no \<open>userId\<close>
  claim, jwtAuth calls \<^verbatim>\<open>next()\<close> with an identity whose \<open>userId\<close> is the string
  \<open>undefined\<close>.
\<close>

theorem C9_missing_userId_is_undefined:
  assumes "authorization req = Some h" and "startsWith h ''Bearer ''"
    and "v (token_of h) s = Inr (JObj claims)"
    and "map_of claims ''userId'' = None"
  shows "jwtAuth v s req =
           Inr (Next (req\<lparr>user := Some \<lparr>userId = ''undefined'', role = claim claims ''role''\<rparr>\<rparr>))"
proof -
  from assms(4) have "js_String (claim claims ''userId'') = Inr ''undefined''"
    by (simp add: claim_def)
  with assms(1-3) show ?thesis
    by (rule jwtAuth_claims)
qed

theorem C9_witness:
  "jwtAuth sample_verify ''s3cret'' \<lparr>authorization = Some ''Bearer tokNoUser'', user = None\<rparr>
     = Inr (Next \<lparr>authorization = Some ''Bearer tokNoUser'',
                  user = Some \<lparr>userId = ''undefined'', role = JStr ''librarian''\<rparr>\<rparr>)"
proof -
  have v: "sample_verify (token_of ''Bearer tokNoUser'') ''s3cret''
             = Inr (JObj [(''role'', JStr ''librarian'')])"
    by (simp add: token_of_def slice_def trim_def is_js_whitespace_def sample_verify_def)
  have p: "startsWith ''Bearer tokNoUser'' ''Bearer ''"
    by (simp add: startsWith_def)
  from C9_missing_userId_is_undefined
         [of "\<lparr>authorization = Some ''Bearer tokNoUser'', user = None\<rparr>" "''Bearer tokNoUser''"
             sample_verify "''s3cret''", OF _ p v]
  show ?thesis
    by (simp add: claim_def)
qed




end
